theory Spec2Isabelle
  imports Main "HOL-Library.Char_ord" "HOL-Library.List_Lexorder"
begin

section \<open>Python strings: \<open>str.join\<close> and \<open>str.format\<close>\<close>

text \<open>
  The module \<^verbatim>\<open>conda/win_batlink.py\<close> builds two batch scripts out of string
  templates. Python strings are modelled as \<open>string\<close>; the newline is
  \<open>CHR 0x0A\<close> (written \<open>\<newline>\<close> inside a literal) and the backslash is \<open>CHR 0x5C\<close>.
\<close>

datatype error = KeyError string | ValueError

text \<open>\<^verbatim>\<open>sep.join(xs)\<close>.\<close>

fun str_join :: "string \<Rightarrow> string list \<Rightarrow> string" where
  "str_join s [] = []"
| "str_join s [x] = x"
| "str_join s (x # y # ys) = x @ s @ str_join s (y # ys)"

text \<open>
  \<^verbatim>\<open>template.format(**kwargs)\<close> for the replacement fields this module uses: literal
  text is copied, \<^verbatim>\<open>{{\<close> and \<^verbatim>\<open>}}\<close> are the escaped braces, \<^verbatim>\<open>{name}\<close> is replaced
  by the keyword argument \<open>name\<close> (\<open>KeyError\<close> when there is none), and a single \<^verbatim>\<open>}\<close>
  or an unclosed \<^verbatim>\<open>{\<close> is a \<open>ValueError\<close>. The inserted value is not scanned again.
  The scanner is in literal text (\<open>None\<close>) or inside a field whose name read so far is
  \<open>n\<close> (\<open>Some n\<close>). Conversions, format specifications, attribute and index lookups
  and positional fields do not occur in the templates below and are not modelled.
\<close>

type_synonym kwargs = "(string \<times> string) list"

fun prepend :: "string \<Rightarrow> error + string \<Rightarrow> error + string" where
  "prepend v (Inl e) = Inl e"
| "prepend v (Inr r) = Inr (v @ r)"

fun format_scan :: "string option \<Rightarrow> string \<Rightarrow> kwargs \<Rightarrow> error + string" where
  "format_scan None [] kw = Inr []"
| "format_scan None (c # cs) kw =
     (if c = CHR ''{'' then
        (case cs of
           [] \<Rightarrow> Inl ValueError
         | d # ds \<Rightarrow>
             if d = CHR ''{'' then prepend ''{'' (format_scan None ds kw)
             else format_scan (Some []) cs kw)
      else if c = CHR ''}'' then
        (case cs of
           [] \<Rightarrow> Inl ValueError
         | d # ds \<Rightarrow>
             if d = CHR ''}'' then prepend ''}'' (format_scan None ds kw)
             else Inl ValueError)
      else prepend [c] (format_scan None cs kw))"
| "format_scan (Some n) [] kw = Inl ValueError"
| "format_scan (Some n) (c # cs) kw =
     (if c = CHR ''}'' then
        (case map_of kw n of
           None \<Rightarrow> Inl (KeyError n)
         | Some v \<Rightarrow> prepend v (format_scan None cs kw))
      else format_scan (Some (n @ [c])) cs kw)"

definition format :: "string \<Rightarrow> kwargs \<Rightarrow> error + string" where
  "format template kw = format_scan None template kw"

text \<open>
  The list comprehension \<^verbatim>\<open>[T.format(key=x) for x in xs]\<close>; the first exception
  ends it.
\<close>

fun format_each :: "string \<Rightarrow> string \<Rightarrow> string list \<Rightarrow> error + string list" where
  "format_each template key [] = Inr []"
| "format_each template key (x # xs) =
     (case format template [(key, x)] of
        Inl e \<Rightarrow> Inl e
      | Inr r \<Rightarrow>
          (case format_each template key xs of
             Inl e \<Rightarrow> Inl e
           | Inr rs \<Rightarrow> Inr (r # rs)))"

section \<open>The templates\<close>

definition BAT_LINK_HEADER :: string where
  "BAT_LINK_HEADER =
     ''@echo off\<newline>> NUL (\<newline>{mkdirs}\<newline>)\<newline>\<newline>> NUL (\<newline>{links}\<newline>)\<newline>''"

definition BAT_UNLINK_HEADER :: string where
  "BAT_UNLINK_HEADER =
     ''@echo off\<newline>\<newline>> NUL (\<newline>{filedeletes}\<newline>\<newline>{dirdeletes}\<newline>)\<newline>''"

definition WINXP_LINK :: string where
  "WINXP_LINK = ''fsutil.exe hardlink create {dest} {source}''"

definition WINVISTA_LINK :: string where
  "WINVISTA_LINK = ''mklink /H {dest} {source}''"

definition MAKE_DIR :: string where
  "MAKE_DIR = ''mkdir {dst_dir}''"

definition FILE_DELETE :: string where
  "FILE_DELETE = ''del /Q {dest}''"

definition DIR_DELETE :: string where
  "DIR_DELETE = ''rmdir /Q {dest}''"

section \<open>What the module reads from its environment\<close>

text \<open>
  The generators call \<^verbatim>\<open>os.path.join\<close>, \<^verbatim>\<open>os.path.split\<close>, \<^verbatim>\<open>os.path.abspath\<close>
  and \<^verbatim>\<open>distutils.spawn.find_executable\<close>, none of which belongs to this
  repository, and iterate over a Python \<^verbatim>\<open>set\<close>, whose order the language leaves
  open. \<^verbatim>\<open>abspath\<close> reads the working directory and \<^verbatim>\<open>find_executable\<close> the search
  path, so all of them are taken from an environment: \<open>find_executable\<close> returns the
  path found or \<open>None\<close>, and \<open>set_iter s\<close> is the order in which \<^verbatim>\<open>for dn in s\<close>
  visits the set.
\<close>

record os_env =
  find_executable :: "string \<Rightarrow> string option"
  join :: "string \<Rightarrow> string \<Rightarrow> string"
  split :: "string \<Rightarrow> string \<times> string"
  abspath :: "string \<Rightarrow> string"
  set_iter :: "string set \<Rightarrow> string list"

text \<open>Iterating over a finite set visits each of its elements once.\<close>

definition valid_env :: "os_env \<Rightarrow> bool" where
  "valid_env env \<longleftrightarrow>
     (\<forall>s. finite s \<longrightarrow> set (set_iter env s) = s \<and> distinct (set_iter env s))"

text \<open>Python's truth value of \<^verbatim>\<open>None\<close> or a string.\<close>

fun truthy :: "string option \<Rightarrow> bool" where
  "truthy None = False"
| "truthy (Some s) = (s \<noteq> [])"

section \<open>\<^verbatim>\<open>make_bat_link\<close>\<close>

text \<open>
  The \<^verbatim>\<open>for file in files\<close> loop; its state is the list \<open>links\<close> and the set
  \<open>dirs\<close>.
\<close>

fun link_loop ::
  "os_env \<Rightarrow> string \<Rightarrow> string \<Rightarrow> string \<Rightarrow> string list \<Rightarrow>
   string list \<times> string set \<Rightarrow> error + string list \<times> string set"
where
  "link_loop env LINK prefix dist_dir [] (links, dirs) = Inr (links, dirs)"
| "link_loop env LINK prefix dist_dir (file # files) (links, dirs) =
     (let source = abspath env (join env dist_dir file);
          (fdn, fbn) = split env file;
          dst_dir = join env prefix fdn;
          dirs' = insert (abspath env dst_dir) dirs;
          dest = abspath env (join env dst_dir fbn)
      in case format LINK [(''source'', source), (''dest'', dest)] of
           Inl e \<Rightarrow> Inl e
         | Inr cmd \<Rightarrow> link_loop env LINK prefix dist_dir files (links @ [cmd], dirs'))"

definition make_bat_link :: "os_env \<Rightarrow> string list \<Rightarrow> string \<Rightarrow> string \<Rightarrow> error + string" where
  "make_bat_link env files prefix dist_dir =
     (let has_mklink = find_executable env ''mklink'';
          LINK = (if truthy has_mklink then WINVISTA_LINK else WINXP_LINK)
      in case link_loop env LINK prefix dist_dir files ([], {}) of
           Inl e \<Rightarrow> Inl e
         | Inr (links, dirs) \<Rightarrow>
             (case format_each MAKE_DIR ''dst_dir'' (set_iter env dirs) of
                Inl e \<Rightarrow> Inl e
              | Inr mkdirs \<Rightarrow>
                  format BAT_LINK_HEADER
                    [(''links'', str_join ''\<newline>'' links),
                     (''mkdirs'', str_join ''\<newline>'' mkdirs)]))"

section \<open>\<^verbatim>\<open>make_bat_unlink\<close>\<close>

definition make_bat_unlink ::
  "os_env \<Rightarrow> string list \<Rightarrow> string list \<Rightarrow> string \<Rightarrow> string \<Rightarrow> error + string"
where
  "make_bat_unlink env files directories prefix dist_dir =
     (case format_each FILE_DELETE ''dest'' (map (abspath env) files) of
        Inl e \<Rightarrow> Inl e
      | Inr filedeletes \<Rightarrow>
          (case format_each DIR_DELETE ''dest'' (map (abspath env) directories) of
             Inl e \<Rightarrow> Inl e
           | Inr dirdeletes \<Rightarrow>
               format BAT_UNLINK_HEADER
                 [(''filedeletes'', str_join ''\<newline>'' filedeletes),
                  (''dirdeletes'', str_join ''\<newline>'' dirdeletes)]))"

section \<open>The paths of one entry\<close>

text \<open>
  The values the loop body of \<^verbatim>\<open>make_bat_link\<close> binds to \<open>source\<close>, to
  \<open>abspath(dst_dir)\<close> and to \<open>dest\<close> for one \<open>file\<close>, named so that the
  theorems can speak about them.
\<close>

definition link_source :: "os_env \<Rightarrow> string \<Rightarrow> string \<Rightarrow> string" where
  "link_source env dist_dir file = abspath env (join env dist_dir file)"

definition link_dst_dir :: "os_env \<Rightarrow> string \<Rightarrow> string \<Rightarrow> string" where
  "link_dst_dir env prefix file = abspath env (join env prefix (fst (split env file)))"

definition link_dest :: "os_env \<Rightarrow> string \<Rightarrow> string \<Rightarrow> string" where
  "link_dest env prefix file =
     abspath env (join env (join env prefix (fst (split env file))) (snd (split env file)))"

text \<open>The command word of the template that a probe result selects.\<close>

definition link_word :: "string option \<Rightarrow> string" where
  "link_word has_mklink =
     (if truthy has_mklink then ''mklink /H '' else ''fsutil.exe hardlink create '')"

section \<open>\<^verbatim>\<open>os.path\<close> on Windows\<close>

text \<open>
  On Windows \<^verbatim>\<open>os.path\<close> is the standard library's \<^verbatim>\<open>ntpath\<close>. It is not part
  of this repository; the functions below follow \<^verbatim>\<open>ntpath.py\<close> of CPython 3.11
  (\<^verbatim>\<open>splitdrive\<close>, \<^verbatim>\<open>isabs\<close>, \<^verbatim>\<open>join\<close> with two arguments, \<^verbatim>\<open>split\<close>,
  \<^verbatim>\<open>normpath\<close>) on strings of 8-bit characters, with \<^verbatim>\<open>upper\<close> and \<^verbatim>\<open>lower\<close>
  acting on the ASCII letters only (Python folds every letter, so drive names that
  differ in the case of a non-ASCII letter are outside this model; no example below
  reaches that comparison). \<^verbatim>\<open>abspath\<close> is the library's
  \<^verbatim>\<open>_abspath_fallback\<close>, \<^verbatim>\<open>normpath(path if isabs(path) else join(getcwd(), path))\<close>,
  with the working directory as a parameter; on a Windows host the library asks the
  operating system (\<^verbatim>\<open>GetFullPathName\<close>) first. They give the generators a concrete
  environment to run in.
\<close>

definition sep :: string where "sep = [CHR 0x5C]"
definition altsep :: string where "altsep = ''/''"
definition seps :: string where "seps = [CHR 0x5C, CHR ''/'']"
definition colon :: string where "colon = '':''"
definition curdir :: string where "curdir = ''.''"
definition pardir :: string where "pardir = ''..''"
definition unc_prefix :: string where
  "unc_prefix = [CHR 0x5C, CHR 0x5C, CHR ''?'', CHR 0x5C, CHR ''U'', CHR ''N'', CHR ''C'', CHR 0x5C]"

definition char_upper :: "char \<Rightarrow> char" where
  "char_upper c = (if CHR ''a'' \<le> c \<and> c \<le> CHR ''z'' then char_of (of_char c - (32::nat)) else c)"

definition char_lower :: "char \<Rightarrow> char" where
  "char_lower c = (if CHR ''A'' \<le> c \<and> c \<le> CHR ''Z'' then char_of (of_char c + (32::nat)) else c)"

definition upper :: "string \<Rightarrow> string" where "upper s = map char_upper s"
definition lower :: "string \<Rightarrow> string" where "lower s = map char_lower s"

definition replace_altsep :: "string \<Rightarrow> string" where
  "replace_altsep p = map (\<lambda>c. if [c] = altsep then hd sep else c) p"

fun find_char :: "char \<Rightarrow> string \<Rightarrow> nat option" where
  "find_char c [] = None"
| "find_char c (x # xs) = (if x = c then Some 0 else map_option Suc (find_char c xs))"

definition str_find :: "string \<Rightarrow> char \<Rightarrow> nat \<Rightarrow> nat option" where
  "str_find s c start = map_option (\<lambda>i. start + i) (find_char c (drop start s))"

definition lstrip :: "string \<Rightarrow> string \<Rightarrow> string" where
  "lstrip chars s = dropWhile (\<lambda>c. c \<in> set chars) s"

definition rstrip :: "string \<Rightarrow> string \<Rightarrow> string" where
  "rstrip chars s = rev (dropWhile (\<lambda>c. c \<in> set chars) (rev s))"

fun str_split :: "char \<Rightarrow> string \<Rightarrow> string list" where
  "str_split c [] = [[]]"
| "str_split c (x # xs) =
     (if x = c then [] # str_split c xs
      else (case str_split c xs of [] \<Rightarrow> [[x]] | y # ys \<Rightarrow> (x # y) # ys))"

definition nt_splitdrive :: "string \<Rightarrow> string \<times> string" where
  "nt_splitdrive p =
     (if length p \<ge> 2 then
        (let normp = replace_altsep p in
         if take 2 normp = sep @ sep then
           (let start = (if upper (take 8 normp) = unc_prefix then 8 else 2) in
            case str_find normp (hd sep) start of
              None \<Rightarrow> (p, [])
            | Some index \<Rightarrow>
                (case str_find normp (hd sep) (index + 1) of
                   None \<Rightarrow> (p, [])
                 | Some index2 \<Rightarrow> (take index2 p, drop index2 p)))
         else if take 1 (drop 1 normp) = colon then (take 2 p, drop 2 p)
         else ([], p))
      else ([], p))"

definition nt_isabs :: "string \<Rightarrow> bool" where
  "nt_isabs s =
     (let s = replace_altsep (take 3 s)
      in take 1 s = sep \<or> take 2 (drop 1 s) = colon @ sep)"

definition nt_join :: "string \<Rightarrow> string \<Rightarrow> string" where
  "nt_join path p =
     (let (result_drive, result_path) = nt_splitdrive path;
          (p_drive, p_path) = nt_splitdrive p;
          (result_drive, result_path) =
            (if p_path \<noteq> [] \<and> hd p_path \<in> set seps then
               (if p_drive \<noteq> [] \<or> result_drive = [] then p_drive else result_drive, p_path)
             else if p_drive \<noteq> [] \<and> p_drive \<noteq> result_drive
                     \<and> lower p_drive \<noteq> lower result_drive then
               (p_drive, p_path)
             else
               (let result_drive =
                      (if p_drive \<noteq> [] \<and> p_drive \<noteq> result_drive then p_drive
                       else result_drive);
                    result_path =
                      (if result_path \<noteq> [] \<and> last result_path \<notin> set seps
                       then result_path @ sep else result_path)
                in (result_drive, result_path @ p_path)))
      in if result_path \<noteq> [] \<and> hd result_path \<notin> set seps
            \<and> result_drive \<noteq> [] \<and> [last result_drive] \<noteq> colon
         then result_drive @ sep @ result_path
         else result_drive @ result_path)"

fun last_sep :: "string \<Rightarrow> nat \<Rightarrow> nat" where
  "last_sep p 0 = 0"
| "last_sep p (Suc i) = (if p ! i \<notin> set seps then last_sep p i else Suc i)"

definition nt_split :: "string \<Rightarrow> string \<times> string" where
  "nt_split p0 =
     (let (d, p) = nt_splitdrive p0;
          i = last_sep p (length p);
          (head, tail) = (take i p, drop i p);
          head = (if rstrip seps head \<noteq> [] then rstrip seps head else head)
      in (d @ head, tail))"

fun norm_comps :: "string \<Rightarrow> string list \<Rightarrow> string list \<Rightarrow> string list" where
  "norm_comps prefix kept [] = kept"
| "norm_comps prefix kept (c # rest) =
     (if c = [] \<or> c = curdir then norm_comps prefix kept rest
      else if c = pardir then
        (if kept \<noteq> [] \<and> last kept \<noteq> pardir then norm_comps prefix (butlast kept) rest
         else if kept = [] \<and> prefix \<noteq> [] \<and> [last prefix] = sep then norm_comps prefix kept rest
         else norm_comps prefix (kept @ [c]) rest)
      else norm_comps prefix (kept @ [c]) rest)"

definition nt_normpath :: "string \<Rightarrow> string" where
  "nt_normpath path0 =
     (let path = replace_altsep path0;
          (prefix, path) = nt_splitdrive path;
          (prefix, path) =
            (if take 1 path = sep then (prefix @ sep, lstrip sep path) else (prefix, path));
          comps = norm_comps prefix [] (str_split (hd sep) path);
          comps = (if prefix = [] \<and> comps = [] then [curdir] else comps)
      in prefix @ str_join sep comps)"

definition nt_abspath :: "string \<Rightarrow> string \<Rightarrow> string" where
  "nt_abspath cwd path =
     nt_normpath (if \<not> nt_isabs path then nt_join cwd path else path)"

definition ntpath_env ::
  "string \<Rightarrow> (string \<Rightarrow> string option) \<Rightarrow> (string set \<Rightarrow> string list) \<Rightarrow> os_env" where
  "ntpath_env cwd probe iter =
     \<lparr>find_executable = probe, join = nt_join, split = nt_split,
      abspath = nt_abspath cwd, set_iter = iter\<rparr>"

text \<open>
  Probes and hosts for the examples: a host without and one with \<^verbatim>\<open>mklink\<close> in the
  working directory \<open>C:\work\<close>, the same two with another working directory and with
  another place of the executable, all iterating a set in sorted order.
\<close>

definition probe_absent :: "string \<Rightarrow> string option" where
  "probe_absent executable = None"

definition probe_present :: "string \<Rightarrow> string option" where
  "probe_present executable = Some (executable @ ''.exe'')"

definition work_dir :: string where
  "work_dir = ''C:'' @ sep @ ''work''"

definition legacy_host :: os_env where
  "legacy_host = ntpath_env work_dir probe_absent sorted_list_of_set"

definition modern_host :: os_env where
  "modern_host = ntpath_env work_dir probe_present sorted_list_of_set"

definition probe_elsewhere :: "string \<Rightarrow> string option" where
  "probe_elsewhere executable = Some (''D:/tools/'' @ executable @ ''.exe'')"

definition other_dir :: string where
  "other_dir = ''C:'' @ sep @ ''other''"

definition legacy_host_elsewhere :: os_env where
  "legacy_host_elsewhere = ntpath_env other_dir probe_absent sorted_list_of_set"

definition modern_host_elsewhere :: os_env where
  "modern_host_elsewhere = ntpath_env work_dir probe_elsewhere sorted_list_of_set"

section \<open>Rendering the templates\<close>

lemma format_WINXP_LINK:
  "format WINXP_LINK [(''source'', s), (''dest'', d)] =
     Inr (''fsutil.exe hardlink create '' @ d @ '' '' @ s)"
  by (simp add: format_def WINXP_LINK_def)

lemma format_WINVISTA_LINK:
  "format WINVISTA_LINK [(''source'', s), (''dest'', d)] =
     Inr (''mklink /H '' @ d @ '' '' @ s)"
  by (simp add: format_def WINVISTA_LINK_def)

lemma format_MAKE_DIR:
  "format MAKE_DIR [(''dst_dir'', d)] = Inr (''mkdir '' @ d)"
  by (simp add: format_def MAKE_DIR_def)

lemma format_FILE_DELETE:
  "format FILE_DELETE [(''dest'', d)] = Inr (''del /Q '' @ d)"
  by (simp add: format_def FILE_DELETE_def)

lemma format_DIR_DELETE:
  "format DIR_DELETE [(''dest'', d)] = Inr (''rmdir /Q '' @ d)"
  by (simp add: format_def DIR_DELETE_def)

lemma format_BAT_LINK_HEADER:
  "format BAT_LINK_HEADER [(''links'', l), (''mkdirs'', m)] =
     Inr (''@echo off\<newline>> NUL (\<newline>'' @ m @ ''\<newline>)\<newline>\<newline>> NUL (\<newline>'' @ l @ ''\<newline>)\<newline>'')"
  by (simp add: format_def BAT_LINK_HEADER_def)

lemma format_BAT_UNLINK_HEADER:
  "format BAT_UNLINK_HEADER [(''filedeletes'', f), (''dirdeletes'', d)] =
     Inr (''@echo off\<newline>\<newline>> NUL (\<newline>'' @ f @ ''\<newline>\<newline>'' @ d @ ''\<newline>)\<newline>'')"
  by (simp add: format_def BAT_UNLINK_HEADER_def)

section \<open>What the loops compute\<close>

lemma format_each_MAKE_DIR:
  "format_each MAKE_DIR ''dst_dir'' ds = Inr (map (\<lambda>d. ''mkdir '' @ d) ds)"
  by (induction ds) (simp_all add: format_MAKE_DIR)

lemma format_each_FILE_DELETE:
  "format_each FILE_DELETE ''dest'' fs = Inr (map (\<lambda>f. ''del /Q '' @ f) fs)"
  by (induction fs) (simp_all add: format_FILE_DELETE)

lemma format_each_DIR_DELETE:
  "format_each DIR_DELETE ''dest'' ds = Inr (map (\<lambda>d. ''rmdir /Q '' @ d) ds)"
  by (induction ds) (simp_all add: format_DIR_DELETE)

lemma link_loop_WINXP:
  "link_loop env WINXP_LINK prefix dist_dir files (links, dirs) =
     Inr (links @ map (\<lambda>f. ''fsutil.exe hardlink create '' @ link_dest env prefix f
                              @ '' '' @ link_source env dist_dir f) files,
          dirs \<union> link_dst_dir env prefix ` set files)"
proof (induction files arbitrary: links dirs)
  case Nil
  show ?case by simp
next
  case (Cons f fs)
  show ?case
    by (simp add: Let_def case_prod_beta format_WINXP_LINK Cons.IH
          link_dest_def link_source_def link_dst_dir_def)
qed

lemma link_loop_WINVISTA:
  "link_loop env WINVISTA_LINK prefix dist_dir files (links, dirs) =
     Inr (links @ map (\<lambda>f. ''mklink /H '' @ link_dest env prefix f
                              @ '' '' @ link_source env dist_dir f) files,
          dirs \<union> link_dst_dir env prefix ` set files)"
proof (induction files arbitrary: links dirs)
  case Nil
  show ?case by simp
next
  case (Cons f fs)
  show ?case
    by (simp add: Let_def case_prod_beta format_WINVISTA_LINK Cons.IH
          link_dest_def link_source_def link_dst_dir_def)
qed

lemma link_loop_links:
  "link_loop env (if truthy h then WINVISTA_LINK else WINXP_LINK) prefix dist_dir files ([], {}) =
     Inr (map (\<lambda>f. link_word h @ link_dest env prefix f @ '' '' @ link_source env dist_dir f) files,
          link_dst_dir env prefix ` set files)"
  by (simp add: link_loop_WINXP link_loop_WINVISTA link_word_def)

lemma make_bat_link_script:
  "make_bat_link env files prefix dist_dir =
     Inr (''@echo off\<newline>> NUL (\<newline>''
          @ str_join ''\<newline>''
              (map (\<lambda>d. ''mkdir '' @ d) (set_iter env (link_dst_dir env prefix ` set files)))
          @ ''\<newline>)\<newline>\<newline>> NUL (\<newline>''
          @ str_join ''\<newline>''
              (map (\<lambda>f. link_word (find_executable env ''mklink'') @ link_dest env prefix f
                         @ '' '' @ link_source env dist_dir f) files)
          @ ''\<newline>)\<newline>'')"
  unfolding make_bat_link_def Let_def link_loop_links
  by (simp only: sum.case prod.case format_each_MAKE_DIR format_BAT_LINK_HEADER)

lemma make_bat_unlink_script:
  "make_bat_unlink env files directories prefix dist_dir =
     Inr (''@echo off\<newline>\<newline>> NUL (\<newline>''
          @ str_join ''\<newline>'' (map (\<lambda>f. ''del /Q '' @ abspath env f) files)
          @ ''\<newline>\<newline>''
          @ str_join ''\<newline>'' (map (\<lambda>d. ''rmdir /Q '' @ abspath env d) directories)
          @ ''\<newline>)\<newline>'')"
  unfolding make_bat_unlink_def format_each_FILE_DELETE format_each_DIR_DELETE
  by (simp only: sum.case format_BAT_UNLINK_HEADER map_map o_def)

section \<open>Iteration over the directory set\<close>

lemma valid_env_iter:
  "valid_env env \<Longrightarrow> finite s \<Longrightarrow> set (set_iter env s) = s \<and> distinct (set_iter env s)"
  by (simp add: valid_env_def)

lemma valid_env_empty: "valid_env env \<Longrightarrow> set_iter env {} = []"
  using valid_env_iter [of env "{}"] by simp

lemma distinct_singleton:
  assumes "set xs = {x}" and "distinct xs"
  shows "xs = [x]"
proof -
  have "length xs = 1"
    using assms distinct_card [of xs] by simp
  then obtain y where "xs = [y]"
    by (cases xs) auto
  with assms(1) show ?thesis by simp
qed

lemma valid_env_single: "valid_env env \<Longrightarrow> set_iter env {d} = [d]"
  using valid_env_iter [of env "{d}"] by (simp add: distinct_singleton)

lemma valid_ntpath_sorted: "valid_env (ntpath_env cwd probe sorted_list_of_set)"
  by (simp add: valid_env_def ntpath_env_def)


section \<open>The example paths under \<^verbatim>\<open>ntpath\<close>\<close>

lemma nt_abspath_absolute: "nt_isabs p \<Longrightarrow> nt_abspath cwd p = nt_normpath p"
  by (simp add: nt_abspath_def)

lemma nt_split_a_b: "nt_split ''a/b.dll'' = (''a'', ''b.dll'')"
  by code_simp

lemma nt_split_a_c: "nt_split ''a/c.dll'' = (''a'', ''c.dll'')"
  by code_simp

lemma nt_join_env_a: "nt_join (''C:'' @ sep @ ''env'') ''a'' = ''C:'' @ sep @ ''env'' @ sep @ ''a''"
  by code_simp

lemma nt_join_env_a_b:
  "nt_join (''C:'' @ sep @ ''env'' @ sep @ ''a'') ''b.dll'' =
     ''C:'' @ sep @ ''env'' @ sep @ ''a'' @ sep @ ''b.dll''"
  by code_simp

lemma nt_join_env_a_c:
  "nt_join (''C:'' @ sep @ ''env'' @ sep @ ''a'') ''c.dll'' =
     ''C:'' @ sep @ ''env'' @ sep @ ''a'' @ sep @ ''c.dll''"
  by code_simp

lemma nt_join_pkgs_a_b:
  "nt_join (''C:'' @ sep @ ''pkgs'' @ sep @ ''foo'') ''a/b.dll'' =
     ''C:'' @ sep @ ''pkgs'' @ sep @ ''foo'' @ sep @ ''a/b.dll''"
  by code_simp

lemma nt_abspath_env_a:
  "nt_abspath cwd (''C:'' @ sep @ ''env'' @ sep @ ''a'') = ''C:'' @ sep @ ''env'' @ sep @ ''a''"
proof -
  have "nt_isabs (''C:'' @ sep @ ''env'' @ sep @ ''a'')"
    by code_simp
  moreover have "nt_normpath (''C:'' @ sep @ ''env'' @ sep @ ''a'') =
      ''C:'' @ sep @ ''env'' @ sep @ ''a''"
    by code_simp
  ultimately show ?thesis
    by (simp only: nt_abspath_absolute)
qed

lemma nt_abspath_env_a_b:
  "nt_abspath cwd (''C:'' @ sep @ ''env'' @ sep @ ''a'' @ sep @ ''b.dll'') =
     ''C:'' @ sep @ ''env'' @ sep @ ''a'' @ sep @ ''b.dll''"
proof -
  have "nt_isabs (''C:'' @ sep @ ''env'' @ sep @ ''a'' @ sep @ ''b.dll'')"
    by code_simp
  moreover have "nt_normpath (''C:'' @ sep @ ''env'' @ sep @ ''a'' @ sep @ ''b.dll'') =
      ''C:'' @ sep @ ''env'' @ sep @ ''a'' @ sep @ ''b.dll''"
    by code_simp
  ultimately show ?thesis
    by (simp only: nt_abspath_absolute)
qed

lemma nt_abspath_pkgs_a_b:
  "nt_abspath cwd (''C:'' @ sep @ ''pkgs'' @ sep @ ''foo'' @ sep @ ''a/b.dll'') =
     ''C:'' @ sep @ ''pkgs'' @ sep @ ''foo'' @ sep @ ''a'' @ sep @ ''b.dll''"
proof -
  have "nt_isabs (''C:'' @ sep @ ''pkgs'' @ sep @ ''foo'' @ sep @ ''a/b.dll'')"
    by code_simp
  moreover have "nt_normpath (''C:'' @ sep @ ''pkgs'' @ sep @ ''foo'' @ sep @ ''a/b.dll'') =
      ''C:'' @ sep @ ''pkgs'' @ sep @ ''foo'' @ sep @ ''a'' @ sep @ ''b.dll''"
    by code_simp
  ultimately show ?thesis
    by (simp only: nt_abspath_absolute)
qed

lemma ntpath_env_sel:
  "find_executable (ntpath_env cwd probe iter) = probe"
  "join (ntpath_env cwd probe iter) = nt_join"
  "split (ntpath_env cwd probe iter) = nt_split"
  "abspath (ntpath_env cwd probe iter) = nt_abspath cwd"
  "set_iter (ntpath_env cwd probe iter) = iter"
  by (simp_all add: ntpath_env_def)

lemma example_dst_dir:
  "link_dst_dir (ntpath_env cwd probe iter) (''C:'' @ sep @ ''env'') ''a/b.dll'' =
     ''C:'' @ sep @ ''env'' @ sep @ ''a''"
  by (simp only: link_dst_dir_def ntpath_env_sel nt_split_a_b fst_conv nt_join_env_a
        nt_abspath_env_a)

lemma example_dst_dir_c:
  "link_dst_dir (ntpath_env cwd probe iter) (''C:'' @ sep @ ''env'') ''a/c.dll'' =
     ''C:'' @ sep @ ''env'' @ sep @ ''a''"
  by (simp only: link_dst_dir_def ntpath_env_sel nt_split_a_c fst_conv nt_join_env_a
        nt_abspath_env_a)

lemma example_dest:
  "link_dest (ntpath_env cwd probe iter) (''C:'' @ sep @ ''env'') ''a/b.dll'' =
     ''C:'' @ sep @ ''env'' @ sep @ ''a'' @ sep @ ''b.dll''"
  by (simp only: link_dest_def ntpath_env_sel nt_split_a_b fst_conv snd_conv nt_join_env_a
        nt_join_env_a_b nt_abspath_env_a_b)

lemma example_source:
  "link_source (ntpath_env cwd probe iter) (''C:'' @ sep @ ''pkgs'' @ sep @ ''foo'') ''a/b.dll'' =
     ''C:'' @ sep @ ''pkgs'' @ sep @ ''foo'' @ sep @ ''a'' @ sep @ ''b.dll''"
  by (simp only: link_source_def ntpath_env_sel nt_join_pkgs_a_b nt_abspath_pkgs_a_b)

lemma nt_join_pkgs_a_c:
  "nt_join (''C:'' @ sep @ ''pkgs'' @ sep @ ''foo'') ''a/c.dll'' =
     ''C:'' @ sep @ ''pkgs'' @ sep @ ''foo'' @ sep @ ''a/c.dll''"
  by code_simp

lemma nt_abspath_env_a_c:
  "nt_abspath cwd (''C:'' @ sep @ ''env'' @ sep @ ''a'' @ sep @ ''c.dll'') =
     ''C:'' @ sep @ ''env'' @ sep @ ''a'' @ sep @ ''c.dll''"
proof -
  have "nt_isabs (''C:'' @ sep @ ''env'' @ sep @ ''a'' @ sep @ ''c.dll'')"
    by code_simp
  moreover have "nt_normpath (''C:'' @ sep @ ''env'' @ sep @ ''a'' @ sep @ ''c.dll'') =
      ''C:'' @ sep @ ''env'' @ sep @ ''a'' @ sep @ ''c.dll''"
    by code_simp
  ultimately show ?thesis
    by (simp only: nt_abspath_absolute)
qed

lemma nt_abspath_pkgs_a_c:
  "nt_abspath cwd (''C:'' @ sep @ ''pkgs'' @ sep @ ''foo'' @ sep @ ''a/c.dll'') =
     ''C:'' @ sep @ ''pkgs'' @ sep @ ''foo'' @ sep @ ''a'' @ sep @ ''c.dll''"
proof -
  have "nt_isabs (''C:'' @ sep @ ''pkgs'' @ sep @ ''foo'' @ sep @ ''a/c.dll'')"
    by code_simp
  moreover have "nt_normpath (''C:'' @ sep @ ''pkgs'' @ sep @ ''foo'' @ sep @ ''a/c.dll'') =
      ''C:'' @ sep @ ''pkgs'' @ sep @ ''foo'' @ sep @ ''a'' @ sep @ ''c.dll''"
    by code_simp
  ultimately show ?thesis
    by (simp only: nt_abspath_absolute)
qed

lemma example_dest_c:
  "link_dest (ntpath_env cwd probe iter) (''C:'' @ sep @ ''env'') ''a/c.dll'' =
     ''C:'' @ sep @ ''env'' @ sep @ ''a'' @ sep @ ''c.dll''"
  by (simp only: link_dest_def ntpath_env_sel nt_split_a_c fst_conv snd_conv nt_join_env_a
        nt_join_env_a_c nt_abspath_env_a_c)

lemma example_source_c:
  "link_source (ntpath_env cwd probe iter) (''C:'' @ sep @ ''pkgs'' @ sep @ ''foo'') ''a/c.dll'' =
     ''C:'' @ sep @ ''pkgs'' @ sep @ ''foo'' @ sep @ ''a'' @ sep @ ''c.dll''"
  by (simp only: link_source_def ntpath_env_sel nt_join_pkgs_a_c nt_abspath_pkgs_a_c)

lemma nt_abspath_work_x:
  "nt_abspath work_dir ''x.txt'' = ''C:'' @ sep @ ''work'' @ sep @ ''x.txt''"
  by code_simp

lemma nt_abspath_work_y:
  "nt_abspath work_dir ''y.txt'' = ''C:'' @ sep @ ''work'' @ sep @ ''y.txt''"
  by code_simp

lemma nt_abspath_work_sub:
  "nt_abspath work_dir ''sub'' = ''C:'' @ sep @ ''work'' @ sep @ ''sub''"
  by code_simp

lemma nt_abspath_other_x:
  "nt_abspath other_dir ''x.txt'' = ''C:'' @ sep @ ''other'' @ sep @ ''x.txt''"
  by code_simp

lemma nt_abspath_other_y:
  "nt_abspath other_dir ''y.txt'' = ''C:'' @ sep @ ''other'' @ sep @ ''y.txt''"
  by code_simp

lemma nt_abspath_other_sub:
  "nt_abspath other_dir ''sub'' = ''C:'' @ sep @ ''other'' @ sep @ ''sub''"
  by code_simp

section \<open>Environments that agree\<close>

lemma link_word_modern: "truthy h \<Longrightarrow> link_word h = ''mklink /H ''"
  by (simp add: link_word_def)

lemma link_word_legacy: "\<not> truthy h \<Longrightarrow> link_word h = ''fsutil.exe hardlink create ''"
  by (simp add: link_word_def)

lemma link_paths_probe:
  "link_dest (env\<lparr>find_executable := p\<rparr>) = link_dest env"
  "link_source (env\<lparr>find_executable := p\<rparr>) = link_source env"
  "link_dst_dir (env\<lparr>find_executable := p\<rparr>) = link_dst_dir env"
  by (simp_all add: fun_eq_iff link_dest_def link_source_def link_dst_dir_def)

lemma link_paths_cong:
  assumes "join e1 = join e2" and "split e1 = split e2" and "abspath e1 = abspath e2"
  shows "link_dest e1 = link_dest e2" and "link_source e1 = link_source e2"
    and "link_dst_dir e1 = link_dst_dir e2"
  using assms by (simp_all add: fun_eq_iff link_dest_def link_source_def link_dst_dir_def)

section \<open>The link script\<close>

text \<open>
  C1. For every non-empty \<open>files\<close>, the script of \<open>make_bat_link\<close> is the fixed
  template around two sections: the hardlink section joins exactly one command per
  entry of \<open>files\<close>, duplicates included (\<open>length links = length files\<close>), and the
  mkdir section joins pairwise distinct commands, exactly one \<open>mkdir d\<close> for each
  distinct destination directory \<open>d\<close> of the entries.
\<close>

theorem link_script_command_counts:
  assumes "files \<noteq> []" and "valid_env env"
  shows "\<exists>mkdirs links.
     make_bat_link env files prefix dist_dir =
       Inr (''@echo off\<newline>> NUL (\<newline>'' @ str_join ''\<newline>'' mkdirs
            @ ''\<newline>)\<newline>\<newline>> NUL (\<newline>'' @ str_join ''\<newline>'' links @ ''\<newline>)\<newline>'')
     \<and> links = map (\<lambda>f. link_word (find_executable env ''mklink'') @ link_dest env prefix f
                          @ '' '' @ link_source env dist_dir f) files
     \<and> length links = length files
     \<and> set mkdirs = (\<lambda>d. ''mkdir '' @ d) ` link_dst_dir env prefix ` set files
     \<and> distinct mkdirs
     \<and> length mkdirs = card (link_dst_dir env prefix ` set files)"
proof -
  let ?D = "link_dst_dir env prefix ` set files"
  let ?mk = "map (\<lambda>d. ''mkdir '' @ d) (set_iter env ?D)"
  have it: "set (set_iter env ?D) = ?D" "distinct (set_iter env ?D)"
    using valid_env_iter [OF assms(2), of ?D] by simp_all
  have d: "distinct ?mk"
    using it(2) by (simp add: distinct_map inj_on_def)
  have s: "set ?mk = (\<lambda>d. ''mkdir '' @ d) ` ?D"
    using it(1) by simp
  have l: "length ?mk = card ?D"
    using it distinct_card [of "set_iter env ?D"] by simp
  show ?thesis
    using d s l make_bat_link_script [of env files prefix dist_dir] by (intro exI conjI) (assumption | simp)+
qed

theorem link_script_command_counts_witness:
  "[''a/b.dll'', ''a/c.dll'', ''a/b.dll''] \<noteq> [] \<and> valid_env modern_host \<and>
   (\<exists>mkdirs links.
      make_bat_link modern_host [''a/b.dll'', ''a/c.dll'', ''a/b.dll'']
          (''C:'' @ sep @ ''env'') (''C:'' @ sep @ ''pkgs'' @ sep @ ''foo'') =
        Inr (''@echo off\<newline>> NUL (\<newline>'' @ str_join ''\<newline>'' mkdirs
             @ ''\<newline>)\<newline>\<newline>> NUL (\<newline>'' @ str_join ''\<newline>'' links @ ''\<newline>)\<newline>'')
      \<and> length links = 3 \<and> distinct mkdirs \<and> length mkdirs = 1)"
proof -
  let ?files = "[''a/b.dll'', ''a/c.dll'', ''a/b.dll'']"
  have n: "?files \<noteq> []"
    by simp
  have v: "valid_env modern_host"
    by (simp only: modern_host_def valid_ntpath_sorted)
  have c: "card (link_dst_dir modern_host (''C:'' @ sep @ ''env'') ` set ?files) = 1"
    by (simp only: modern_host_def list.set image_insert image_empty
          example_dst_dir example_dst_dir_c) simp
  obtain mkdirs links where
    r: "make_bat_link modern_host ?files
          (''C:'' @ sep @ ''env'') (''C:'' @ sep @ ''pkgs'' @ sep @ ''foo'') =
        Inr (''@echo off\<newline>> NUL (\<newline>'' @ str_join ''\<newline>'' mkdirs
             @ ''\<newline>)\<newline>\<newline>> NUL (\<newline>'' @ str_join ''\<newline>'' links @ ''\<newline>)\<newline>'')"
    and l: "length links = length ?files"
    and d: "distinct mkdirs"
    and m: "length mkdirs = card (link_dst_dir modern_host (''C:'' @ sep @ ''env'') ` set ?files)"
    using link_script_command_counts [OF n v, of "''C:'' @ sep @ ''env''"
        "''C:'' @ sep @ ''pkgs'' @ sep @ ''foo''"]
    by blast
  have l3: "length links = 3"
    using l by simp
  have m1: "length mkdirs = 1"
    using m c by (simp only:)
  show ?thesis
    using n v r l3 d m1 by blast
qed



text \<open>
  C3. The template depends on the probe only through its truth value: a positive probe
  gives \<open>mklink /H\<close> for every entry, a negative probe gives
  \<open>fsutil.exe hardlink create\<close> for every entry and is no error (the result is still
  \<open>Inr\<close> of the complete script), and replacing the probe by another one of the same
  truth value leaves the script unchanged.
\<close>

theorem link_template_follows_probe:
  "(truthy (find_executable env ''mklink'') \<longrightarrow>
      make_bat_link env files prefix dist_dir =
        Inr (''@echo off\<newline>> NUL (\<newline>''
             @ str_join ''\<newline>''
                 (map (\<lambda>d. ''mkdir '' @ d) (set_iter env (link_dst_dir env prefix ` set files)))
             @ ''\<newline>)\<newline>\<newline>> NUL (\<newline>''
             @ str_join ''\<newline>''
                 (map (\<lambda>f. ''mklink /H '' @ link_dest env prefix f
                            @ '' '' @ link_source env dist_dir f) files)
             @ ''\<newline>)\<newline>''))
   \<and> (\<not> truthy (find_executable env ''mklink'') \<longrightarrow>
      make_bat_link env files prefix dist_dir =
        Inr (''@echo off\<newline>> NUL (\<newline>''
             @ str_join ''\<newline>''
                 (map (\<lambda>d. ''mkdir '' @ d) (set_iter env (link_dst_dir env prefix ` set files)))
             @ ''\<newline>)\<newline>\<newline>> NUL (\<newline>''
             @ str_join ''\<newline>''
                 (map (\<lambda>f. ''fsutil.exe hardlink create '' @ link_dest env prefix f
                            @ '' '' @ link_source env dist_dir f) files)
             @ ''\<newline>)\<newline>''))
   \<and> (truthy (p ''mklink'') = truthy (find_executable env ''mklink'') \<longrightarrow>
      make_bat_link (env\<lparr>find_executable := p\<rparr>) files prefix dist_dir =
        make_bat_link env files prefix dist_dir)"
proof (intro conjI impI)
  assume "truthy (find_executable env ''mklink'')"
  then have w: "link_word (find_executable env ''mklink'') = ''mklink /H ''"
    by (rule link_word_modern)
  show "make_bat_link env files prefix dist_dir =
        Inr (''@echo off\<newline>> NUL (\<newline>''
             @ str_join ''\<newline>''
                 (map (\<lambda>d. ''mkdir '' @ d) (set_iter env (link_dst_dir env prefix ` set files)))
             @ ''\<newline>)\<newline>\<newline>> NUL (\<newline>''
             @ str_join ''\<newline>''
                 (map (\<lambda>f. ''mklink /H '' @ link_dest env prefix f
                            @ '' '' @ link_source env dist_dir f) files)
             @ ''\<newline>)\<newline>'')"
    by (simp only: make_bat_link_script w)
next
  assume "\<not> truthy (find_executable env ''mklink'')"
  then have w: "link_word (find_executable env ''mklink'') = ''fsutil.exe hardlink create ''"
    by (rule link_word_legacy)
  show "make_bat_link env files prefix dist_dir =
        Inr (''@echo off\<newline>> NUL (\<newline>''
             @ str_join ''\<newline>''
                 (map (\<lambda>d. ''mkdir '' @ d) (set_iter env (link_dst_dir env prefix ` set files)))
             @ ''\<newline>)\<newline>\<newline>> NUL (\<newline>''
             @ str_join ''\<newline>''
                 (map (\<lambda>f. ''fsutil.exe hardlink create '' @ link_dest env prefix f
                            @ '' '' @ link_source env dist_dir f) files)
             @ ''\<newline>)\<newline>'')"
    by (simp only: make_bat_link_script w)
next
  assume "truthy (p ''mklink'') = truthy (find_executable env ''mklink'')"
  then have "link_word (p ''mklink'') = link_word (find_executable env ''mklink'')"
    by (simp add: link_word_def)
  then show "make_bat_link (env\<lparr>find_executable := p\<rparr>) files prefix dist_dir =
        make_bat_link env files prefix dist_dir"
    by (simp add: make_bat_link_script link_paths_probe)
qed

theorem link_template_follows_probe_witness:
  "truthy (find_executable modern_host ''mklink'')
   \<and> make_bat_link modern_host [''a/b.dll'']
         (''C:'' @ sep @ ''env'') (''C:'' @ sep @ ''pkgs'' @ sep @ ''foo'') =
       Inr (''@echo off\<newline>> NUL (\<newline>''
            @ ''mkdir '' @ (''C:'' @ sep @ ''env'' @ sep @ ''a'')
            @ ''\<newline>)\<newline>\<newline>> NUL (\<newline>''
            @ ''mklink /H '' @ (''C:'' @ sep @ ''env'' @ sep @ ''a'' @ sep @ ''b.dll'')
            @ '' '' @ (''C:'' @ sep @ ''pkgs'' @ sep @ ''foo'' @ sep @ ''a'' @ sep @ ''b.dll'')
            @ ''\<newline>)\<newline>'')
   \<and> \<not> truthy (find_executable legacy_host ''mklink'')
   \<and> make_bat_link legacy_host [''a/b.dll'']
         (''C:'' @ sep @ ''env'') (''C:'' @ sep @ ''pkgs'' @ sep @ ''foo'') =
       Inr (''@echo off\<newline>> NUL (\<newline>''
            @ ''mkdir '' @ (''C:'' @ sep @ ''env'' @ sep @ ''a'')
            @ ''\<newline>)\<newline>\<newline>> NUL (\<newline>''
            @ ''fsutil.exe hardlink create '' @ (''C:'' @ sep @ ''env'' @ sep @ ''a'' @ sep @ ''b.dll'')
            @ '' '' @ (''C:'' @ sep @ ''pkgs'' @ sep @ ''foo'' @ sep @ ''a'' @ sep @ ''b.dll'')
            @ ''\<newline>)\<newline>'')
   \<and> truthy (probe_elsewhere ''mklink'') = truthy (find_executable modern_host ''mklink'')
   \<and> make_bat_link (modern_host\<lparr>find_executable := probe_elsewhere\<rparr>) [''a/b.dll'']
         (''C:'' @ sep @ ''env'') (''C:'' @ sep @ ''pkgs'' @ sep @ ''foo'') =
       make_bat_link modern_host [''a/b.dll'']
         (''C:'' @ sep @ ''env'') (''C:'' @ sep @ ''pkgs'' @ sep @ ''foo'')"
proof -
  let ?P = "''C:'' @ sep @ ''env''" and ?D = "''C:'' @ sep @ ''pkgs'' @ sep @ ''foo''"
  have tm: "truthy (find_executable modern_host ''mklink'')"
    by (simp add: modern_host_def ntpath_env_sel probe_present_def)
  have tl: "\<not> truthy (find_executable legacy_host ''mklink'')"
    by (simp add: legacy_host_def ntpath_env_sel probe_absent_def)
  have te: "truthy (probe_elsewhere ''mklink'') = truthy (find_executable modern_host ''mklink'')"
    using tm by (simp add: probe_elsewhere_def)
  have im: "set_iter modern_host {''C:'' @ sep @ ''env'' @ sep @ ''a''} = [''C:'' @ sep @ ''env'' @ sep @ ''a'']"
    by (rule valid_env_single) (simp only: modern_host_def valid_ntpath_sorted)
  have il: "set_iter legacy_host {''C:'' @ sep @ ''env'' @ sep @ ''a''} = [''C:'' @ sep @ ''env'' @ sep @ ''a'']"
    by (rule valid_env_single) (simp only: legacy_host_def valid_ntpath_sorted)
  have pm: "link_dst_dir modern_host ?P ''a/b.dll'' = ''C:'' @ sep @ ''env'' @ sep @ ''a''"
    "link_dest modern_host ?P ''a/b.dll'' = ''C:'' @ sep @ ''env'' @ sep @ ''a'' @ sep @ ''b.dll''"
    "link_source modern_host ?D ''a/b.dll'' = ''C:'' @ sep @ ''pkgs'' @ sep @ ''foo'' @ sep @ ''a'' @ sep @ ''b.dll''"
    by (simp_all only: modern_host_def example_dst_dir example_dest example_source)
  have pl: "link_dst_dir legacy_host ?P ''a/b.dll'' = ''C:'' @ sep @ ''env'' @ sep @ ''a''"
    "link_dest legacy_host ?P ''a/b.dll'' = ''C:'' @ sep @ ''env'' @ sep @ ''a'' @ sep @ ''b.dll''"
    "link_source legacy_host ?D ''a/b.dll'' = ''C:'' @ sep @ ''pkgs'' @ sep @ ''foo'' @ sep @ ''a'' @ sep @ ''b.dll''"
    by (simp_all only: legacy_host_def example_dst_dir example_dest example_source)
  note t1 = link_template_follows_probe [where env = modern_host and files = "[''a/b.dll'']"
      and prefix = ?P and dist_dir = ?D and p = probe_elsewhere]
  note t2 = link_template_follows_probe [where env = legacy_host and files = "[''a/b.dll'']"
      and prefix = ?P and dist_dir = ?D and p = probe_absent]
  have m: "make_bat_link modern_host [''a/b.dll''] ?P ?D =
       Inr (''@echo off\<newline>> NUL (\<newline>''
            @ ''mkdir '' @ (''C:'' @ sep @ ''env'' @ sep @ ''a'')
            @ ''\<newline>)\<newline>\<newline>> NUL (\<newline>''
            @ ''mklink /H '' @ (''C:'' @ sep @ ''env'' @ sep @ ''a'' @ sep @ ''b.dll'')
            @ '' '' @ (''C:'' @ sep @ ''pkgs'' @ sep @ ''foo'' @ sep @ ''a'' @ sep @ ''b.dll'')
            @ ''\<newline>)\<newline>'')"
    using t1 tm
    by (simp only: list.set image_insert image_empty list.map pm im str_join.simps) simp
  have l: "make_bat_link legacy_host [''a/b.dll''] ?P ?D =
       Inr (''@echo off\<newline>> NUL (\<newline>''
            @ ''mkdir '' @ (''C:'' @ sep @ ''env'' @ sep @ ''a'')
            @ ''\<newline>)\<newline>\<newline>> NUL (\<newline>''
            @ ''fsutil.exe hardlink create '' @ (''C:'' @ sep @ ''env'' @ sep @ ''a'' @ sep @ ''b.dll'')
            @ '' '' @ (''C:'' @ sep @ ''pkgs'' @ sep @ ''foo'' @ sep @ ''a'' @ sep @ ''b.dll'')
            @ ''\<newline>)\<newline>'')"
    using t2 tl
    by (simp only: list.set image_insert image_empty list.map pl il str_join.simps) simp
  have e: "make_bat_link (modern_host\<lparr>find_executable := probe_elsewhere\<rparr>) [''a/b.dll''] ?P ?D =
       make_bat_link modern_host [''a/b.dll''] ?P ?D"
    using t1 te by blast
  show ?thesis
    using tm m tl l te e by blast
qed

text \<open>
  C4. With \<open>files = ["a/b.dll"]\<close>, \<open>prefix = C:\env\<close> and \<open>dist_dir = C:\pkgs\foo\<close>
  (\<open>sep\<close> is the backslash) under \<^verbatim>\<open>ntpath\<close>, whatever the working directory and
  the probe: the setup section is the one command \<open>mkdir C:\env\a\<close>, and the link
  section is one command, the selected command word followed by \<open>C:\env\a\b.dll\<close>
  (destination) and then \<open>C:\pkgs\foo\a\b.dll\<close> (source).
\<close>

theorem link_script_single_file:
  assumes "valid_env (ntpath_env cwd probe iter)"
  shows "make_bat_link (ntpath_env cwd probe iter) [''a/b.dll'']
           (''C:'' @ sep @ ''env'') (''C:'' @ sep @ ''pkgs'' @ sep @ ''foo'') =
         Inr (''@echo off\<newline>> NUL (\<newline>''
              @ ''mkdir '' @ (''C:'' @ sep @ ''env'' @ sep @ ''a'')
              @ ''\<newline>)\<newline>\<newline>> NUL (\<newline>''
              @ link_word (probe ''mklink'')
              @ (''C:'' @ sep @ ''env'' @ sep @ ''a'' @ sep @ ''b.dll'') @ '' ''
              @ (''C:'' @ sep @ ''pkgs'' @ sep @ ''foo'' @ sep @ ''a'' @ sep @ ''b.dll'')
              @ ''\<newline>)\<newline>'')"
proof -
  have h: "iter {''C:'' @ sep @ ''env'' @ sep @ ''a''} = [''C:'' @ sep @ ''env'' @ sep @ ''a'']"
    using valid_env_single [OF assms] by (simp only: ntpath_env_sel)
  have "make_bat_link (ntpath_env cwd probe iter) [''a/b.dll'']
           (''C:'' @ sep @ ''env'') (''C:'' @ sep @ ''pkgs'' @ sep @ ''foo'') =
     Inr (''@echo off\<newline>> NUL (\<newline>''
          @ str_join ''\<newline>'' (map (\<lambda>d. ''mkdir '' @ d) [''C:'' @ sep @ ''env'' @ sep @ ''a''])
          @ ''\<newline>)\<newline>\<newline>> NUL (\<newline>''
          @ str_join ''\<newline>''
              [link_word (probe ''mklink'') @ (''C:'' @ sep @ ''env'' @ sep @ ''a'' @ sep @ ''b.dll'')
                         @ '' '' @ (''C:'' @ sep @ ''pkgs'' @ sep @ ''foo'' @ sep @ ''a'' @ sep @ ''b.dll'')]
          @ ''\<newline>)\<newline>'')"
    by (simp only: make_bat_link_script list.set image_insert image_empty list.map
          example_dst_dir example_dest example_source ntpath_env_sel h)
  then show ?thesis
    by simp
qed

theorem link_script_single_file_witness:
  "valid_env modern_host \<and>
   make_bat_link modern_host [''a/b.dll'']
       (''C:'' @ sep @ ''env'') (''C:'' @ sep @ ''pkgs'' @ sep @ ''foo'') =
     Inr (''@echo off\<newline>> NUL (\<newline>''
          @ ''mkdir C:'' @ sep @ ''env'' @ sep @ ''a''
          @ ''\<newline>)\<newline>\<newline>> NUL (\<newline>''
          @ ''mklink /H C:'' @ sep @ ''env'' @ sep @ ''a'' @ sep @ ''b.dll''
          @ '' C:'' @ sep @ ''pkgs'' @ sep @ ''foo'' @ sep @ ''a'' @ sep @ ''b.dll''
          @ ''\<newline>)\<newline>'')"
proof -
  have v: "valid_env (ntpath_env work_dir probe_present sorted_list_of_set)"
    by (rule valid_ntpath_sorted)
  have w: "link_word (probe_present ''mklink'') = ''mklink /H ''"
    by (simp add: link_word_def probe_present_def)
  show ?thesis
    using v link_script_single_file [OF v] by (simp add: modern_host_def w)
qed

text \<open>
  C6. With an empty \<open>files\<close> the mkdir and the hardlink section are both the empty
  string, and the script is still the whole fixed template: the \<open>@echo off\<close> header
  and the two \<open>> NUL ( ... )\<close> blocks.
\<close>

theorem link_script_empty_file_list:
  assumes "valid_env env"
  shows "make_bat_link env [] prefix dist_dir =
           Inr ''@echo off\<newline>> NUL (\<newline>\<newline>)\<newline>\<newline>> NUL (\<newline>\<newline>)\<newline>''
         \<and> make_bat_link env [] prefix dist_dir =
           format BAT_LINK_HEADER [(''links'', []), (''mkdirs'', [])]"
  using valid_env_empty [OF assms]
  by (simp add: make_bat_link_script format_BAT_LINK_HEADER)

theorem link_script_empty_file_list_witness:
  "valid_env legacy_host
   \<and> make_bat_link legacy_host [] (''C:'' @ sep @ ''env'') (''C:'' @ sep @ ''pkgs'' @ sep @ ''foo'') =
       Inr ''@echo off\<newline>> NUL (\<newline>\<newline>)\<newline>\<newline>> NUL (\<newline>\<newline>)\<newline>''"
proof -
  have v: "valid_env legacy_host"
    by (simp only: legacy_host_def valid_ntpath_sorted)
  show ?thesis
    using v link_script_empty_file_list [OF v] by blast
qed

text \<open>
  C10. The hardlink section joins the commands in the order of \<open>files\<close>: the
  \<open>i\<close>-th command is the one rendered for the \<open>i\<close>-th entry.
\<close>

theorem hardlink_commands_follow_file_order:
  "\<exists>links.
     make_bat_link env files prefix dist_dir =
       Inr (''@echo off\<newline>> NUL (\<newline>''
            @ str_join ''\<newline>''
                (map (\<lambda>d. ''mkdir '' @ d) (set_iter env (link_dst_dir env prefix ` set files)))
            @ ''\<newline>)\<newline>\<newline>> NUL (\<newline>'' @ str_join ''\<newline>'' links @ ''\<newline>)\<newline>'')
     \<and> length links = length files
     \<and> (\<forall>i<length files.
           links ! i = link_word (find_executable env ''mklink'')
                       @ link_dest env prefix (files ! i) @ '' ''
                       @ link_source env dist_dir (files ! i))"
  using make_bat_link_script [of env files prefix dist_dir]
  by (intro exI [of _ "map (\<lambda>f. link_word (find_executable env ''mklink'') @ link_dest env prefix f
                         @ '' '' @ link_source env dist_dir f) files"]) simp

theorem hardlink_commands_follow_file_order_witness:
  "\<exists>links.
     make_bat_link legacy_host [''a/c.dll'', ''a/b.dll'']
         (''C:'' @ sep @ ''env'') (''C:'' @ sep @ ''pkgs'' @ sep @ ''foo'') =
       Inr (''@echo off\<newline>> NUL (\<newline>''
            @ str_join ''\<newline>''
                (map (\<lambda>d. ''mkdir '' @ d)
                   (set_iter legacy_host
                      (link_dst_dir legacy_host (''C:'' @ sep @ ''env'')
                         ` set [''a/c.dll'', ''a/b.dll''])))
            @ ''\<newline>)\<newline>\<newline>> NUL (\<newline>'' @ str_join ''\<newline>'' links @ ''\<newline>)\<newline>'')
     \<and> length links = 2
     \<and> links ! 0 = ''fsutil.exe hardlink create ''
                    @ (''C:'' @ sep @ ''env'' @ sep @ ''a'' @ sep @ ''c.dll'') @ '' ''
                    @ (''C:'' @ sep @ ''pkgs'' @ sep @ ''foo'' @ sep @ ''a'' @ sep @ ''c.dll'')
     \<and> links ! 1 = ''fsutil.exe hardlink create ''
                    @ (''C:'' @ sep @ ''env'' @ sep @ ''a'' @ sep @ ''b.dll'') @ '' ''
                    @ (''C:'' @ sep @ ''pkgs'' @ sep @ ''foo'' @ sep @ ''a'' @ sep @ ''b.dll'')"
proof -
  let ?P = "''C:'' @ sep @ ''env''" and ?D = "''C:'' @ sep @ ''pkgs'' @ sep @ ''foo''"
  let ?files = "[''a/c.dll'', ''a/b.dll'']"
  have w: "link_word (find_executable legacy_host ''mklink'') = ''fsutil.exe hardlink create ''"
    by (simp add: legacy_host_def ntpath_env_sel probe_absent_def link_word_def)
  obtain links where
    r: "make_bat_link legacy_host ?files ?P ?D =
       Inr (''@echo off\<newline>> NUL (\<newline>''
            @ str_join ''\<newline>''
                (map (\<lambda>d. ''mkdir '' @ d)
                   (set_iter legacy_host (link_dst_dir legacy_host ?P ` set ?files)))
            @ ''\<newline>)\<newline>\<newline>> NUL (\<newline>'' @ str_join ''\<newline>'' links @ ''\<newline>)\<newline>'')"
    and l: "length links = length ?files"
    and a: "\<forall>i<length ?files.
           links ! i = link_word (find_executable legacy_host ''mklink'')
                       @ link_dest legacy_host ?P (?files ! i) @ '' ''
                       @ link_source legacy_host ?D (?files ! i)"
    using hardlink_commands_follow_file_order [of legacy_host ?files ?P ?D] by blast
  have l2: "length links = 2"
    using l by simp
  have "links ! 0 = link_word (find_executable legacy_host ''mklink'')
                       @ link_dest legacy_host ?P ''a/c.dll'' @ '' ''
                       @ link_source legacy_host ?D ''a/c.dll''"
    using a by simp
  then have a0: "links ! 0 = ''fsutil.exe hardlink create ''
                    @ (''C:'' @ sep @ ''env'' @ sep @ ''a'' @ sep @ ''c.dll'') @ '' ''
                    @ (''C:'' @ sep @ ''pkgs'' @ sep @ ''foo'' @ sep @ ''a'' @ sep @ ''c.dll'')"
    unfolding w by (simp only: legacy_host_def example_dest_c example_source_c)
  have "links ! 1 = link_word (find_executable legacy_host ''mklink'')
                       @ link_dest legacy_host ?P ''a/b.dll'' @ '' ''
                       @ link_source legacy_host ?D ''a/b.dll''"
    using a by simp
  then have a1: "links ! 1 = ''fsutil.exe hardlink create ''
                    @ (''C:'' @ sep @ ''env'' @ sep @ ''a'' @ sep @ ''b.dll'') @ '' ''
                    @ (''C:'' @ sep @ ''pkgs'' @ sep @ ''foo'' @ sep @ ''a'' @ sep @ ''b.dll'')"
    unfolding w by (simp only: legacy_host_def example_dest example_source)
  show ?thesis
    using r l2 a0 a1 by blast
qed

section \<open>The unlink script\<close>

text \<open>
  C5. The script of \<open>make_bat_unlink\<close> has one \<open>del /Q\<close> command per entry of
  \<open>files\<close>, in the order of \<open>files\<close>, followed by one \<open>rmdir /Q\<close> command per entry
  of \<open>directories\<close>, in the order of \<open>directories\<close>; for \<open>["x.txt", "y.txt"]\<close> and
  \<open>["sub"]\<close> these are two file deletions followed by one directory deletion.
\<close>

theorem unlink_script_commands_in_order:
  "make_bat_unlink env files directories prefix dist_dir =
     Inr (''@echo off\<newline>\<newline>> NUL (\<newline>''
          @ str_join ''\<newline>'' (map (\<lambda>f. ''del /Q '' @ abspath env f) files)
          @ ''\<newline>\<newline>''
          @ str_join ''\<newline>'' (map (\<lambda>d. ''rmdir /Q '' @ abspath env d) directories)
          @ ''\<newline>)\<newline>'')
   \<and> make_bat_unlink env [''x.txt'', ''y.txt''] [''sub''] prefix dist_dir =
     Inr (''@echo off\<newline>\<newline>> NUL (\<newline>''
          @ ''del /Q '' @ abspath env ''x.txt'' @ ''\<newline>''
          @ ''del /Q '' @ abspath env ''y.txt''
          @ ''\<newline>\<newline>''
          @ ''rmdir /Q '' @ abspath env ''sub''
          @ ''\<newline>)\<newline>'')"
proof
  show "make_bat_unlink env files directories prefix dist_dir =
     Inr (''@echo off\<newline>\<newline>> NUL (\<newline>''
          @ str_join ''\<newline>'' (map (\<lambda>f. ''del /Q '' @ abspath env f) files)
          @ ''\<newline>\<newline>''
          @ str_join ''\<newline>'' (map (\<lambda>d. ''rmdir /Q '' @ abspath env d) directories)
          @ ''\<newline>)\<newline>'')"
    by (rule make_bat_unlink_script)
next
  show "make_bat_unlink env [''x.txt'', ''y.txt''] [''sub''] prefix dist_dir =
     Inr (''@echo off\<newline>\<newline>> NUL (\<newline>''
          @ ''del /Q '' @ abspath env ''x.txt'' @ ''\<newline>''
          @ ''del /Q '' @ abspath env ''y.txt''
          @ ''\<newline>\<newline>''
          @ ''rmdir /Q '' @ abspath env ''sub''
          @ ''\<newline>)\<newline>'')"
    by (simp add: make_bat_unlink_script)
qed

theorem unlink_script_commands_in_order_witness:
  "make_bat_unlink legacy_host [''x.txt'', ''y.txt''] [''sub'']
       (''C:'' @ sep @ ''env'') (''C:'' @ sep @ ''pkgs'' @ sep @ ''foo'') =
     Inr (''@echo off\<newline>\<newline>> NUL (\<newline>''
          @ ''del /Q C:'' @ sep @ ''work'' @ sep @ ''x.txt'' @ ''\<newline>''
          @ ''del /Q C:'' @ sep @ ''work'' @ sep @ ''y.txt''
          @ ''\<newline>\<newline>''
          @ ''rmdir /Q C:'' @ sep @ ''work'' @ sep @ ''sub''
          @ ''\<newline>)\<newline>'')"
proof -
  have a: "abspath legacy_host = nt_abspath work_dir"
    by (simp only: legacy_host_def ntpath_env_sel)
  note t = unlink_script_commands_in_order [where env = legacy_host
      and prefix = "''C:'' @ sep @ ''env''" and dist_dir = "''C:'' @ sep @ ''pkgs'' @ sep @ ''foo''"
      and files = "[]" and directories = "[]", THEN conjunct2]
  show ?thesis
    using t by (simp only: a nt_abspath_work_x nt_abspath_work_y nt_abspath_work_sub) simp
qed

text \<open>
  C9, as stated, fails: the script of \<open>make_bat_unlink\<close> is not determined by
  \<open>files\<close> and \<open>directories\<close> alone. With the same two lists (and the same
  \<open>prefix\<close> and \<open>dist_dir\<close>) it differs between two working directories, because
  every path goes through \<^verbatim>\<open>abspath\<close>.
\<close>

theorem unlink_script_not_determined_by_lists:
  "make_bat_unlink legacy_host [''x.txt'', ''y.txt''] [''sub'']
       (''C:'' @ sep @ ''env'') (''C:'' @ sep @ ''pkgs'' @ sep @ ''foo'')
   \<noteq> make_bat_unlink legacy_host_elsewhere [''x.txt'', ''y.txt''] [''sub'']
       (''C:'' @ sep @ ''env'') (''C:'' @ sep @ ''pkgs'' @ sep @ ''foo'')"
proof -
  have a: "abspath legacy_host = nt_abspath work_dir"
    by (simp only: legacy_host_def ntpath_env_sel)
  have b: "abspath legacy_host_elsewhere = nt_abspath other_dir"
    by (simp only: legacy_host_elsewhere_def ntpath_env_sel)
  show ?thesis
    by (simp only: make_bat_unlink_script list.map a b nt_abspath_work_x nt_abspath_work_y
          nt_abspath_work_sub nt_abspath_other_x nt_abspath_other_y nt_abspath_other_sub)
       (simp add: sep_def)
qed

text \<open>
  C9, amended. The script of \<open>make_bat_unlink\<close> depends only on \<open>files\<close>,
  \<open>directories\<close> and \<^verbatim>\<open>abspath\<close>: two calls with equal lists under the same
  \<^verbatim>\<open>abspath\<close> (the same working directory) return the same result whatever their
  \<open>prefix\<close> and \<open>dist_dir\<close> and whatever else differs in the environment, since
  neither argument is used in rendering.
\<close>

theorem unlink_script_depends_only_on_lists_and_abspath:
  assumes "abspath e1 = abspath e2"
  shows "make_bat_unlink e1 files directories prefix dist_dir =
         make_bat_unlink e2 files directories prefix' dist_dir'"
  using assms by (simp only: make_bat_unlink_script)

theorem unlink_script_depends_only_on_lists_and_abspath_witness:
  "modern_host \<noteq> modern_host_elsewhere
   \<and> abspath modern_host = abspath modern_host_elsewhere
   \<and> make_bat_unlink modern_host [''x.txt'', ''y.txt''] [''sub'']
         (''C:'' @ sep @ ''env'') (''C:'' @ sep @ ''pkgs'' @ sep @ ''foo'') =
       make_bat_unlink modern_host_elsewhere [''x.txt'', ''y.txt''] [''sub'']
         (''D:'' @ sep @ ''root'') (''D:'' @ sep @ ''cache'')
   \<and> make_bat_unlink modern_host [''x.txt'', ''y.txt''] [''sub'']
         (''C:'' @ sep @ ''env'') (''C:'' @ sep @ ''pkgs'' @ sep @ ''foo'') =
       Inr (''@echo off\<newline>\<newline>> NUL (\<newline>''
            @ ''del /Q C:'' @ sep @ ''work'' @ sep @ ''x.txt'' @ ''\<newline>''
            @ ''del /Q C:'' @ sep @ ''work'' @ sep @ ''y.txt''
            @ ''\<newline>\<newline>''
            @ ''rmdir /Q C:'' @ sep @ ''work'' @ sep @ ''sub''
            @ ''\<newline>)\<newline>'')"
proof -
  have "find_executable modern_host ''mklink'' \<noteq> find_executable modern_host_elsewhere ''mklink''"
    by (simp add: modern_host_def modern_host_elsewhere_def ntpath_env_sel probe_present_def
          probe_elsewhere_def)
  then have d: "modern_host \<noteq> modern_host_elsewhere"
    by auto
  have a: "abspath modern_host = abspath modern_host_elsewhere"
    by (simp only: modern_host_def modern_host_elsewhere_def ntpath_env_sel)
  have e: "make_bat_unlink modern_host [''x.txt'', ''y.txt''] [''sub'']
         (''C:'' @ sep @ ''env'') (''C:'' @ sep @ ''pkgs'' @ sep @ ''foo'') =
       make_bat_unlink modern_host_elsewhere [''x.txt'', ''y.txt''] [''sub'']
         (''D:'' @ sep @ ''root'') (''D:'' @ sep @ ''cache'')"
    by (rule unlink_script_depends_only_on_lists_and_abspath [OF a])
  have m: "abspath modern_host = nt_abspath work_dir"
    by (simp only: modern_host_def ntpath_env_sel)
  have v: "make_bat_unlink modern_host [''x.txt'', ''y.txt''] [''sub'']
         (''C:'' @ sep @ ''env'') (''C:'' @ sep @ ''pkgs'' @ sep @ ''foo'') =
       Inr (''@echo off\<newline>\<newline>> NUL (\<newline>''
            @ ''del /Q C:'' @ sep @ ''work'' @ sep @ ''x.txt'' @ ''\<newline>''
            @ ''del /Q C:'' @ sep @ ''work'' @ sep @ ''y.txt''
            @ ''\<newline>\<newline>''
            @ ''rmdir /Q C:'' @ sep @ ''work'' @ sep @ ''sub''
            @ ''\<newline>)\<newline>'')"
    by (simp only: make_bat_unlink_script list.map m nt_abspath_work_x nt_abspath_work_y
          nt_abspath_work_sub) simp
  show ?thesis
    using d a e v by blast
qed

section \<open>Both scripts\<close>

text \<open>
  C7. Both scripts begin with \<open>@echo off\<close> and hold their commands in
  \<open>> NUL ( ... )\<close> blocks: the link script has two (the mkdir commands, then the
  hardlink commands), the unlink script one (the file deletions, then the directory
  deletions). Each command is its template with the paths filled in:
  \<open>mklink /H dest source\<close>, \<open>fsutil.exe hardlink create dest source\<close>,
  \<open>mkdir directory\<close>, \<open>del /Q path\<close> and \<open>rmdir /Q path\<close>.
\<close>

theorem script_grammar_and_templates:
  "make_bat_link env files prefix dist_dir =
     Inr (''@echo off\<newline>''
          @ ''> NUL (\<newline>''
          @ str_join ''\<newline>''
              (map (\<lambda>d. ''mkdir '' @ d) (set_iter env (link_dst_dir env prefix ` set files)))
          @ ''\<newline>)\<newline>''
          @ ''\<newline>''
          @ ''> NUL (\<newline>''
          @ str_join ''\<newline>''
              (map (\<lambda>f. link_word (find_executable env ''mklink'') @ link_dest env prefix f
                         @ '' '' @ link_source env dist_dir f) files)
          @ ''\<newline>)\<newline>'')
   \<and> (link_word (find_executable env ''mklink'') = ''mklink /H ''
        \<or> link_word (find_executable env ''mklink'') = ''fsutil.exe hardlink create '')
   \<and> make_bat_unlink env files directories prefix dist_dir =
     Inr (''@echo off\<newline>''
          @ ''\<newline>''
          @ ''> NUL (\<newline>''
          @ str_join ''\<newline>'' (map (\<lambda>f. ''del /Q '' @ abspath env f) files)
          @ ''\<newline>\<newline>''
          @ str_join ''\<newline>'' (map (\<lambda>d. ''rmdir /Q '' @ abspath env d) directories)
          @ ''\<newline>)\<newline>'')
   \<and> format WINVISTA_LINK [(''source'', s), (''dest'', d)] = Inr (''mklink /H '' @ d @ '' '' @ s)
   \<and> format WINXP_LINK [(''source'', s), (''dest'', d)] =
       Inr (''fsutil.exe hardlink create '' @ d @ '' '' @ s)
   \<and> format MAKE_DIR [(''dst_dir'', d)] = Inr (''mkdir '' @ d)
   \<and> format FILE_DELETE [(''dest'', d)] = Inr (''del /Q '' @ d)
   \<and> format DIR_DELETE [(''dest'', d)] = Inr (''rmdir /Q '' @ d)"
proof (intro conjI)
  show "make_bat_link env files prefix dist_dir =
     Inr (''@echo off\<newline>''
          @ ''> NUL (\<newline>''
          @ str_join ''\<newline>''
              (map (\<lambda>d. ''mkdir '' @ d) (set_iter env (link_dst_dir env prefix ` set files)))
          @ ''\<newline>)\<newline>''
          @ ''\<newline>''
          @ ''> NUL (\<newline>''
          @ str_join ''\<newline>''
              (map (\<lambda>f. link_word (find_executable env ''mklink'') @ link_dest env prefix f
                         @ '' '' @ link_source env dist_dir f) files)
          @ ''\<newline>)\<newline>'')"
    by (simp add: make_bat_link_script)
  show "link_word (find_executable env ''mklink'') = ''mklink /H ''
        \<or> link_word (find_executable env ''mklink'') = ''fsutil.exe hardlink create ''"
    by (simp add: link_word_def)
  show "make_bat_unlink env files directories prefix dist_dir =
     Inr (''@echo off\<newline>''
          @ ''\<newline>''
          @ ''> NUL (\<newline>''
          @ str_join ''\<newline>'' (map (\<lambda>f. ''del /Q '' @ abspath env f) files)
          @ ''\<newline>\<newline>''
          @ str_join ''\<newline>'' (map (\<lambda>d. ''rmdir /Q '' @ abspath env d) directories)
          @ ''\<newline>)\<newline>'')"
    by (simp add: make_bat_unlink_script)
  show "format WINVISTA_LINK [(''source'', s), (''dest'', d)] = Inr (''mklink /H '' @ d @ '' '' @ s)"
    by (rule format_WINVISTA_LINK)
  show "format WINXP_LINK [(''source'', s), (''dest'', d)] =
       Inr (''fsutil.exe hardlink create '' @ d @ '' '' @ s)"
    by (rule format_WINXP_LINK)
  show "format MAKE_DIR [(''dst_dir'', d)] = Inr (''mkdir '' @ d)"
    by (rule format_MAKE_DIR)
  show "format FILE_DELETE [(''dest'', d)] = Inr (''del /Q '' @ d)"
    by (rule format_FILE_DELETE)
  show "format DIR_DELETE [(''dest'', d)] = Inr (''rmdir /Q '' @ d)"
    by (rule format_DIR_DELETE)
qed

text \<open>
  C8, as stated, fails: with identical arguments and the same probe result, the unlink
  script for the relative path \<open>x.txt\<close> differs between two working directories,
  because \<^verbatim>\<open>abspath\<close> resolves it against the working directory.
\<close>

theorem unlink_script_depends_on_working_directory:
  "find_executable legacy_host ''mklink'' = find_executable legacy_host_elsewhere ''mklink''
   \<and> make_bat_unlink legacy_host [''x.txt''] []
         (''C:'' @ sep @ ''env'') (''C:'' @ sep @ ''pkgs'' @ sep @ ''foo'')
     \<noteq> make_bat_unlink legacy_host_elsewhere [''x.txt''] []
         (''C:'' @ sep @ ''env'') (''C:'' @ sep @ ''pkgs'' @ sep @ ''foo'')"
proof
  show "find_executable legacy_host ''mklink'' = find_executable legacy_host_elsewhere ''mklink''"
    by (simp only: legacy_host_def legacy_host_elsewhere_def ntpath_env_sel)
next
  have a: "abspath legacy_host ''x.txt'' = ''C:'' @ sep @ ''work'' @ sep @ ''x.txt''"
    by (simp only: legacy_host_def ntpath_env_sel nt_abspath_work_x)
  have b: "abspath legacy_host_elsewhere ''x.txt'' = ''C:'' @ sep @ ''other'' @ sep @ ''x.txt''"
    by (simp only: legacy_host_elsewhere_def ntpath_env_sel nt_abspath_other_x)
  show "make_bat_unlink legacy_host [''x.txt''] []
         (''C:'' @ sep @ ''env'') (''C:'' @ sep @ ''pkgs'' @ sep @ ''foo'')
     \<noteq> make_bat_unlink legacy_host_elsewhere [''x.txt''] []
         (''C:'' @ sep @ ''env'') (''C:'' @ sep @ ''pkgs'' @ sep @ ''foo'')"
    by (simp only: make_bat_unlink_script list.map a b) (simp add: sep_def)
qed

text \<open>
  C8, amended. Two calls of \<open>make_bat_link\<close> with identical arguments return the same
  script when the probe has the same truth value, \<^verbatim>\<open>join\<close>, \<^verbatim>\<open>split\<close> and
  \<^verbatim>\<open>abspath\<close> behave the same (so the working directory is unchanged) and the directory
  set is iterated in the same order; two calls of \<open>make_bat_unlink\<close> with identical
  arguments return the same script when \<^verbatim>\<open>abspath\<close> behaves the same.
\<close>

theorem generators_deterministic_in_fixed_environment:
  "(truthy (find_executable e1 ''mklink'') = truthy (find_executable e2 ''mklink'')
      \<and> join e1 = join e2 \<and> split e1 = split e2 \<and> abspath e1 = abspath e2
      \<and> set_iter e1 = set_iter e2
    \<longrightarrow> make_bat_link e1 files prefix dist_dir = make_bat_link e2 files prefix dist_dir)
   \<and> (abspath e1 = abspath e2
    \<longrightarrow> make_bat_unlink e1 files directories prefix dist_dir =
        make_bat_unlink e2 files directories prefix dist_dir)"
proof (intro conjI impI)
  assume h: "truthy (find_executable e1 ''mklink'') = truthy (find_executable e2 ''mklink'')
      \<and> join e1 = join e2 \<and> split e1 = split e2 \<and> abspath e1 = abspath e2
      \<and> set_iter e1 = set_iter e2"
  then have "truthy (find_executable e1 ''mklink'') = truthy (find_executable e2 ''mklink'')"
    by blast
  then have w: "link_word (find_executable e1 ''mklink'') = link_word (find_executable e2 ''mklink'')"
    by (simp only: link_word_def)
  from h have j: "join e1 = join e2" and s: "split e1 = split e2"
    and a: "abspath e1 = abspath e2" and i: "set_iter e1 = set_iter e2"
    by blast+
  note p = link_paths_cong [OF j s a]
  show "make_bat_link e1 files prefix dist_dir = make_bat_link e2 files prefix dist_dir"
    by (simp only: make_bat_link_script w p i)
next
  assume "abspath e1 = abspath e2"
  then show "make_bat_unlink e1 files directories prefix dist_dir =
        make_bat_unlink e2 files directories prefix dist_dir"
    by (simp only: make_bat_unlink_script)
qed

theorem generators_deterministic_in_fixed_environment_witness:
  "find_executable modern_host ''mklink'' \<noteq> find_executable modern_host_elsewhere ''mklink''
   \<and> truthy (find_executable modern_host ''mklink'') =
       truthy (find_executable modern_host_elsewhere ''mklink'')
   \<and> join modern_host = join modern_host_elsewhere
   \<and> split modern_host = split modern_host_elsewhere
   \<and> abspath modern_host = abspath modern_host_elsewhere
   \<and> set_iter modern_host = set_iter modern_host_elsewhere
   \<and> make_bat_link modern_host [''a/b.dll'', ''a/c.dll'']
         (''C:'' @ sep @ ''env'') (''C:'' @ sep @ ''pkgs'' @ sep @ ''foo'') =
       make_bat_link modern_host_elsewhere [''a/b.dll'', ''a/c.dll'']
         (''C:'' @ sep @ ''env'') (''C:'' @ sep @ ''pkgs'' @ sep @ ''foo'')
   \<and> make_bat_unlink modern_host [''x.txt'', ''y.txt''] [''sub'']
         (''C:'' @ sep @ ''env'') (''C:'' @ sep @ ''pkgs'' @ sep @ ''foo'') =
       make_bat_unlink modern_host_elsewhere [''x.txt'', ''y.txt''] [''sub'']
         (''C:'' @ sep @ ''env'') (''C:'' @ sep @ ''pkgs'' @ sep @ ''foo'')"
proof -
  have d: "find_executable modern_host ''mklink'' \<noteq> find_executable modern_host_elsewhere ''mklink''"
    by (simp add: modern_host_def modern_host_elsewhere_def ntpath_env_sel probe_present_def
          probe_elsewhere_def)
  have t: "truthy (find_executable modern_host ''mklink'') =
       truthy (find_executable modern_host_elsewhere ''mklink'')"
    by (simp add: modern_host_def modern_host_elsewhere_def ntpath_env_sel probe_present_def
          probe_elsewhere_def)
  have s: "join modern_host = join modern_host_elsewhere"
    "split modern_host = split modern_host_elsewhere"
    "abspath modern_host = abspath modern_host_elsewhere"
    "set_iter modern_host = set_iter modern_host_elsewhere"
    by (simp_all only: modern_host_def modern_host_elsewhere_def ntpath_env_sel)
  note g1 = generators_deterministic_in_fixed_environment [where ?e1.0 = modern_host
      and ?e2.0 = modern_host_elsewhere and files = "[''a/b.dll'', ''a/c.dll'']"
      and prefix = "''C:'' @ sep @ ''env''" and dist_dir = "''C:'' @ sep @ ''pkgs'' @ sep @ ''foo''",
      THEN conjunct1]
  note g2 = generators_deterministic_in_fixed_environment [where ?e1.0 = modern_host
      and ?e2.0 = modern_host_elsewhere and files = "[''x.txt'', ''y.txt'']"
      and directories = "[''sub'']"
      and prefix = "''C:'' @ sep @ ''env''" and dist_dir = "''C:'' @ sep @ ''pkgs'' @ sep @ ''foo''",
      THEN conjunct2]
  have l: "make_bat_link modern_host [''a/b.dll'', ''a/c.dll'']
         (''C:'' @ sep @ ''env'') (''C:'' @ sep @ ''pkgs'' @ sep @ ''foo'') =
       make_bat_link modern_host_elsewhere [''a/b.dll'', ''a/c.dll'']
         (''C:'' @ sep @ ''env'') (''C:'' @ sep @ ''pkgs'' @ sep @ ''foo'')"
    using g1 t s by blast
  have u: "make_bat_unlink modern_host [''x.txt'', ''y.txt''] [''sub'']
         (''C:'' @ sep @ ''env'') (''C:'' @ sep @ ''pkgs'' @ sep @ ''foo'') =
       make_bat_unlink modern_host_elsewhere [''x.txt'', ''y.txt''] [''sub'']
         (''C:'' @ sep @ ''env'') (''C:'' @ sep @ ''pkgs'' @ sep @ ''foo'')"
    using g2 s by blast
  show ?thesis
    using d t s l u by blast
qed

end
